theory Spec2Isabelle
  imports Complex_Main "HOL-Library.Sublist"
begin

section \<open>Detection events (src/lib/detection.ts)\<close>

text \<open>
  The union of string literals \<open>DetectionEventType\<close> is a datatype; \<open>typeName\<close> gives
  back the string each constructor stands for, which is what the server action
  \<open>saveData\<close> compares against. Instants (\<open>Date.now()\<close>, \<open>Date\<close>) are integers, in
  milliseconds. JavaScript numbers that carry confidences and pixel coordinates are
  modelled as exact reals; the scores and counts are integers.
\<close>

datatype DetectionEventType =
    FOCUS_LOST
  | NO_FACE
  | MULTIPLE_FACES
  | PHONE_DETECTED
  | NOTES_DETECTED
  | BOOK_DETECTED

fun typeName :: "DetectionEventType \<Rightarrow> string" where
  "typeName FOCUS_LOST = ''FOCUS_LOST''"
| "typeName NO_FACE = ''NO_FACE''"
| "typeName MULTIPLE_FACES = ''MULTIPLE_FACES''"
| "typeName PHONE_DETECTED = ''PHONE_DETECTED''"
| "typeName NOTES_DETECTED = ''NOTES_DETECTED''"
| "typeName BOOK_DETECTED = ''BOOK_DETECTED''"

record DetectionEvent =
  type :: DetectionEventType
  timestamp :: int
  confidence :: real

text \<open>
  \<open>triggerEvent\<close> builds the event and hands it to the registered callback; the model
  returns the event, and the caller collects what a tick has triggered, in order. The
  clock read of \<open>new Date()\<close> is taken to be the instant \<open>now\<close> of the tick.
\<close>

definition triggerEvent :: "DetectionEventType \<Rightarrow> real \<Rightarrow> int \<Rightarrow> DetectionEvent" where
  "triggerEvent ty conf now = \<lparr>type = ty, timestamp = now, confidence = conf\<rparr>"

section \<open>The detection system's state\<close>

text \<open>
  The fields of the class \<open>DetectionSystem\<close>. The two detectors are opaque models; the
  record keeps whether each is loaded (not \<open>null\<close>).
\<close>

record DetectionSystem =
  faceDetector :: bool
  objectDetector :: bool
  isInitialized :: bool
  lastFaceDetectedTime :: int
  lastLookingAwayTime :: int
  isLookingAway :: bool
  hasNoFace :: bool

definition FOCUS_LOST_THRESHOLD :: int where
  "FOCUS_LOST_THRESHOLD = 5000"

definition NO_FACE_THRESHOLD :: int where
  "NO_FACE_THRESHOLD = 10000"

definition FACE_CENTER_THRESHOLD :: real where
  "FACE_CENTER_THRESHOLD = 3 / 10"

text \<open>The field initialisers of the class, run at the instant \<open>t\<close>.\<close>

definition newDetectionSystem :: "int \<Rightarrow> DetectionSystem" where
  "newDetectionSystem t =
     \<lparr>faceDetector = False, objectDetector = False, isInitialized = False,
      lastFaceDetectedTime = t, lastLookingAwayTime = t,
      isLookingAway = False, hasNoFace = False\<rparr>"

text \<open>
  \<open>initialize\<close> of src/lib/detection.ts loads the face detector, then the object
  detector; the first load that throws ends it with \<open>false\<close>, leaving what was
  assigned before. The two booleans say whether each load succeeds.
\<close>

definition initialize :: "bool \<Rightarrow> bool \<Rightarrow> DetectionSystem \<Rightarrow> DetectionSystem \<times> bool" where
  "initialize faceLoads objectLoads this =
     (if \<not> faceLoads then (this, False)
      else let this1 = this\<lparr>faceDetector := True\<rparr> in
        if \<not> objectLoads then (this1, False)
        else (this1\<lparr>objectDetector := True, isInitialized := True\<rparr>, True))"

section \<open>What the perception models return\<close>

datatype error = PerceptionError | TypeError

record BoundingBox =
  originX :: real
  originY :: real
  width :: real
  height :: real

text \<open>
  A face as MediaPipe reports it: the bounding box is optional in its interface, and
  \<open>categories\<close> is the list of the categories' scores.
\<close>

record Detection =
  boundingBox :: "BoundingBox option"
  categories :: "real list"

record HTMLVideoElement =
  videoWidth :: nat
  videoHeight :: nat

record Prediction =
  class_name :: string
  score :: real

section \<open>Face detection\<close>

text \<open>
  \<open>isFaceLookingAtCenter\<close>. Reading a field of a missing bounding box throws a
  TypeError (\<open>None\<close>). A division by a zero \<open>videoWidth\<close> gives \<open>NaN\<close> or \<open>Infinity\<close> in
  JavaScript, and neither is below the threshold.
\<close>

definition isFaceLookingAtCenter :: "Detection \<Rightarrow> HTMLVideoElement \<Rightarrow> bool option" where
  "isFaceLookingAtCenter face video =
     (case boundingBox face of
        None \<Rightarrow> None
      | Some bb \<Rightarrow>
          let faceCenterX = originX bb + width bb / 2;
              videoCenterX = real (videoWidth video) / 2
          in if videoWidth video = 0 then Some False
             else Some (\<bar>faceCenterX - videoCenterX\<bar> / real (videoWidth video)
                          < FACE_CENTER_THRESHOLD))"

text \<open>
  The body of the \<open>try\<close> block of \<open>detectFaces\<close>, after the guard. \<open>detections\<close> is what
  \<open>faceDetector.detectForVideo\<close> does: it throws (\<open>Inl\<close>) or returns the faces.
  The result is \<open>Inl\<close> with the state reached when an exception leaves the block, or
  \<open>Inr\<close> with the final state and the triggered events. With one face, the log line
  reads \<open>face.categories[0].score\<close>, which throws when there is no category.
\<close>

definition detectFaces_try ::
  "DetectionSystem \<Rightarrow> error + Detection list \<Rightarrow> HTMLVideoElement \<Rightarrow> int
     \<Rightarrow> (error \<times> DetectionSystem) + (DetectionSystem \<times> DetectionEvent list)" where
  "detectFaces_try this detections video now =
     (case detections of
        Inl e \<Rightarrow> Inl (e, this)
      | Inr faces \<Rightarrow>
          if length faces = 0 then
            (let this1 = (if \<not> hasNoFace this
                          then this\<lparr>lastFaceDetectedTime := now, hasNoFace := True\<rparr>
                          else this)
             in if now - lastFaceDetectedTime this1 > NO_FACE_THRESHOLD
                then Inr (this1\<lparr>lastFaceDetectedTime := now\<rparr>,
                          [triggerEvent NO_FACE (9 / 10) now])
                else Inr (this1, []))
          else if length faces = 1 then
            (let this1 = this\<lparr>hasNoFace := False\<rparr>;
                 face = hd faces
             in if categories face = [] then Inl (TypeError, this1)
                else case isFaceLookingAtCenter face video of
                  None \<Rightarrow> Inl (TypeError, this1)
                | Some isLookingAtCenter \<Rightarrow>
                    if \<not> isLookingAtCenter then
                      (let this2 = (if \<not> isLookingAway this1
                                    then this1\<lparr>lastLookingAwayTime := now,
                                               isLookingAway := True\<rparr>
                                    else this1)
                       in if now - lastLookingAwayTime this2 > FOCUS_LOST_THRESHOLD
                          then Inr (this2\<lparr>lastLookingAwayTime := now\<rparr>,
                                    [triggerEvent FOCUS_LOST (8 / 10) now])
                          else Inr (this2, []))
                    else Inr (this1\<lparr>isLookingAway := False\<rparr>, []))
          else Inr (this, [triggerEvent MULTIPLE_FACES (9 / 10) now]))"

text \<open>
  \<open>detectFaces\<close> of src/lib/detection.ts: the guard returns at once; the \<open>catch\<close> only
  logs, so the state stays as the exception left it and no event is triggered.
\<close>

definition detectFaces ::
  "DetectionSystem \<Rightarrow> error + Detection list \<Rightarrow> HTMLVideoElement \<Rightarrow> int
     \<Rightarrow> DetectionSystem \<times> DetectionEvent list" where
  "detectFaces this detections video now =
     (if \<not> faceDetector this \<or> \<not> isInitialized this then (this, [])
      else case detectFaces_try this detections video now of
             Inl (e, this1) \<Rightarrow> (this1, [])
           | Inr r \<Rightarrow> r)"

text \<open>
  The detection loop of the room page calls \<open>runDetection\<close> every two seconds; for
  the face tracker alone, a run over a list of ticks (what the face model does, the
  video, the instant) gives the events of each tick.
\<close>

fun detectFacesLoop ::
  "DetectionSystem \<Rightarrow> ((error + Detection list) \<times> HTMLVideoElement \<times> int) list
     \<Rightarrow> DetectionEvent list list" where
  "detectFacesLoop this [] = []"
| "detectFacesLoop this ((detections, video, now) # ticks) =
     (let (this1, triggered) = detectFaces this detections video now
      in triggered # detectFacesLoop this1 ticks)"

text \<open>
  A face that is off center in the words of the specification: its bounding box's
  center is at least 30% of the frame width away from the frame's center.
\<close>

definition offCenter :: "Detection \<Rightarrow> HTMLVideoElement \<Rightarrow> bool" where
  "offCenter face video =
     (categories face \<noteq> [] \<and>
      (case boundingBox face of
         None \<Rightarrow> False
       | Some bb \<Rightarrow>
           \<bar>originX bb + width bb / 2 - real (videoWidth video) / 2\<bar>
             \<ge> 3 / 10 * real (videoWidth video)))"

section \<open>The room page: score and event log\<close>

text \<open>
  The two pieces of React state the detection callback updates, in
  src/app/(interview)/room/[roomId]/page.tsx.
\<close>

record RoomPage =
  events :: "DetectionEvent list"
  integrityScore :: int

definition initialRoomPage :: RoomPage where
  "initialRoomPage = \<lparr>events = [], integrityScore = 100\<rparr>"

text \<open>The \<open>switch\<close> on the event's type; \<open>deduction\<close> starts at 0.\<close>

fun deduction :: "DetectionEventType \<Rightarrow> int" where
  "deduction FOCUS_LOST = 5"
| "deduction NO_FACE = 10"
| "deduction MULTIPLE_FACES = 15"
| "deduction PHONE_DETECTED = 20"
| "deduction NOTES_DETECTED = 15"
| "deduction BOOK_DETECTED = 15"

text \<open>The callback given to \<open>setEventCallback\<close>: both updates are functional updates.\<close>

definition onDetectionEvent :: "RoomPage \<Rightarrow> DetectionEvent \<Rightarrow> RoomPage" where
  "onDetectionEvent page event =
     page\<lparr>events := RoomPage.events page @ [event],
          RoomPage.integrityScore := max 0 (RoomPage.integrityScore page - deduction (DetectionEvent.type event))\<rparr>"

section \<open>The report's reading of the score (generatePDF)\<close>

definition interpretationOf :: "int \<Rightarrow> string" where
  "interpretationOf s =
     (if s \<ge> 90 then ''Excellent - Highly trustworthy performance''
      else if s \<ge> 75 then ''Good - Acceptable with minor concerns''
      else if s \<ge> 60 then ''Average - Some compliance issues detected''
      else if s \<ge> 40 then ''Poor - Multiple policy violations''
      else ''Critical - Severe integrity concerns'')"

section \<open>Object detection\<close>

text \<open>
  \<open>String.prototype.toLowerCase\<close> on the class names, which are ASCII: the letters
  A to Z move to a to z, every other character stays.
\<close>

definition toLowerChar :: "char \<Rightarrow> char" where
  "toLowerChar c =
     (case map_of (zip ''ABCDEFGHIJKLMNOPQRSTUVWXYZ'' ''abcdefghijklmnopqrstuvwxyz'') c of
        Some l \<Rightarrow> l
      | None \<Rightarrow> c)"

definition toLowerCase :: "string \<Rightarrow> string" where
  "toLowerCase s = map toLowerChar s"

text \<open>\<open>String.prototype.includes\<close>: the argument occurs as a contiguous substring.\<close>

fun includesStr :: "string \<Rightarrow> string \<Rightarrow> bool" where
  "includesStr [] sub = (sub = [])"
| "includesStr (c # cs) sub = (prefix sub (c # cs) \<or> includesStr cs sub)"

text \<open>The body of the \<open>for\<close> loop of \<open>detectObjects\<close>, for one prediction.\<close>

definition detectObjects_body :: "Prediction \<Rightarrow> int \<Rightarrow> DetectionEvent list" where
  "detectObjects_body prediction now =
     (let objectClass = toLowerCase (class_name prediction);
          confidence = score prediction
      in if includesStr objectClass ''phone'' \<or> includesStr objectClass ''cell phone''
         then [triggerEvent PHONE_DETECTED confidence now]
         else if includesStr objectClass ''book''
         then [triggerEvent BOOK_DETECTED confidence now]
         else if includesStr objectClass ''paper'' \<or> includesStr objectClass ''notebook''
         then [triggerEvent NOTES_DETECTED confidence now]
         else [])"

text \<open>
  \<open>detectObjects\<close> of src/lib/detection.ts. \<open>predictions\<close> is what
  \<open>objectDetector.detect\<close> does: it throws or returns the predictions. The method
  changes no field, so the model returns the triggered events only.
\<close>

definition detectObjects ::
  "DetectionSystem \<Rightarrow> error + Prediction list \<Rightarrow> int \<Rightarrow> DetectionEvent list" where
  "detectObjects this predictions now =
     (if \<not> objectDetector this \<or> \<not> isInitialized this then []
      else case predictions of
             Inl e \<Rightarrow> []
           | Inr ps \<Rightarrow> concat (map (\<lambda>prediction. detectObjects_body prediction now) ps))"

section \<open>One tick of detection\<close>

text \<open>
  \<open>runDetection\<close> of src/lib/detection.ts. After its guard, \<open>Promise.all\<close> starts
  \<open>detectFaces\<close> and \<open>detectObjects\<close>, each with a \<open>try\<close> and \<open>catch\<close> of its own.
  \<open>detectObjects\<close> reads \<open>objectDetector\<close> and \<open>isInitialized\<close> only, which
  \<open>detectFaces\<close> never writes, so the state after the tick is the one \<open>detectFaces\<close>
  leaves. The model lists the face events before the object events; in the program
  the order of the two groups follows which model answers first.
\<close>

definition runDetection ::
  "DetectionSystem \<Rightarrow> error + Detection list \<Rightarrow> error + Prediction list
     \<Rightarrow> HTMLVideoElement \<Rightarrow> int \<Rightarrow> DetectionSystem \<times> DetectionEvent list" where
  "runDetection this detections predictions video now =
     (if \<not> isInitialized this then (this, [])
      else let (this1, faceEvents) = detectFaces this detections video now
           in (this1, faceEvents @ detectObjects this predictions now))"

section \<open>The variant of the detection system with simulated fallbacks\<close>







section \<open>Saving an interview (src/lib/actions/interview-actions.ts)\<close>

record EventData =
  type :: string
  timestamp :: int
  confidence :: real

text \<open>
  \<open>startTime\<close> is tested for presence by the validation, so it is optional here as
  \<open>endTime\<close> is in the interface. The validation's three tests all throw the same
  error, and the model makes the test of \<open>startTime\<close> first.
\<close>

record InterviewData =
  roomId :: string
  candidateName :: string
  startTime :: "int option"
  endTime :: "int option"
  integrityScore :: int
  events :: "EventData list"

text \<open>The \<open>data\<close> written by \<open>prisma.interview.update\<close>.\<close>

record InterviewUpdate =
  candidateName :: string
  endTime :: "int option"
  duration :: "int option"
  integrityScore :: int
  totalEvents :: nat
  focusLostCount :: nat
  phoneDetectedCount :: nat
  multipleFacesCount :: nat
  noFaceCount :: nat
  notesDetectedCount :: nat
  bookDetectedCount :: nat
  status :: string

datatype saveError = RequiredDataMissing

text \<open>\<open>Math.round\<close> rounds to the nearest integer, a half upwards.\<close>

definition Math_round :: "real \<Rightarrow> int" where
  "Math_round x = \<lfloor>x + 1 / 2\<rfloor>"

definition countOfType :: "string \<Rightarrow> EventData list \<Rightarrow> nat" where
  "countOfType ty es = length (filter (\<lambda>e. EventData.type e = ty) es)"

text \<open>
  \<open>saveData\<close>, up to the database: the validation, then the record written to the
  interview and the rows inserted for its events. A failed validation throws inside
  the \<open>try\<close> and the function answers with \<open>success: false\<close> (\<open>Inl\<close>). The database
  calls themselves are outside the model.
\<close>

definition saveData :: "InterviewData \<Rightarrow> saveError + (InterviewUpdate \<times> EventData list)" where
  "saveData data =
     (case startTime data of
        None \<Rightarrow> Inl RequiredDataMissing
      | Some start \<Rightarrow>
          if roomId data = [] \<or> InterviewData.candidateName data = []
          then Inl RequiredDataMissing
          else
            let duration =
                  (case InterviewData.endTime data of
                     Some e \<Rightarrow> Some (Math_round (real_of_int (e - start) / 60000))
                   | None \<Rightarrow> None);
                es = InterviewData.events data
            in Inr
              (\<lparr>candidateName = InterviewData.candidateName data,
                endTime = InterviewData.endTime data,
                duration = duration,
                integrityScore = max 0 (min 100 (InterviewData.integrityScore data)),
                totalEvents = length es,
                focusLostCount = countOfType ''FOCUS_LOST'' es,
                phoneDetectedCount = countOfType ''PHONE_DETECTED'' es,
                multipleFacesCount = countOfType ''MULTIPLE_FACES'' es,
                noFaceCount = countOfType ''NO_FACE'' es,
                notesDetectedCount = countOfType ''NOTES_DETECTED'' es,
                bookDetectedCount = countOfType ''BOOK_DETECTED'' es,
                status = (if InterviewData.endTime data \<noteq> None
                          then ''completed'' else ''active'')\<rparr>,
               map (\<lambda>event. event\<lparr>EventData.confidence :=
                                   max 0 (min 1 (EventData.confidence event))\<rparr>) es))"

text \<open>The sum of the six counts of a saved interview.\<close>

definition sumOfCounts :: "InterviewUpdate \<Rightarrow> nat" where
  "sumOfCounts u =
     focusLostCount u + noFaceCount u + multipleFacesCount u
       + phoneDetectedCount u + notesDetectedCount u + bookDetectedCount u"

text \<open>What the room page hands to \<open>saveData\<close> for one of its events.\<close>

definition toEventData :: "DetectionEvent \<Rightarrow> EventData" where
  "toEventData ev =
     \<lparr>type = typeName (DetectionEvent.type ev),
      timestamp = DetectionEvent.timestamp ev,
      confidence = DetectionEvent.confidence ev\<rparr>"

section \<open>Concrete inputs\<close>

text \<open>A system built at instant \<open>t\<close> whose two models have loaded.\<close>

definition readySystem :: "int \<Rightarrow> DetectionSystem" where
  "readySystem t = fst (initialize True True (newDetectionSystem t))"


text \<open>The 1280 by 720 camera of the room page, and a face at its left edge.\<close>

definition camera :: HTMLVideoElement where
  "camera = \<lparr>videoWidth = 1280, videoHeight = 720\<rparr>"

definition awayFace :: Detection where
  "awayFace =
     \<lparr>boundingBox = Some \<lparr>originX = 0, originY = 100, width = 200, height = 200\<rparr>,
      categories = [9 / 10]\<rparr>"

text \<open>Four predictions: two labels on one object, a book, a sheet of paper, a chair.\<close>

definition deskPredictions :: "Prediction list" where
  "deskPredictions =
     [\<lparr>class_name = ''Phone Book'', score = 1 / 2\<rparr>,
      \<lparr>class_name = ''Text Book'', score = 1 / 4\<rparr>,
      \<lparr>class_name = ''Paper'', score = 3 / 4\<rparr>,
      \<lparr>class_name = ''chair'', score = 9 / 10\<rparr>]"

definition unknownKindInterview :: InterviewData where
  "unknownKindInterview =
     \<lparr>roomId = ''room-1'', candidateName = ''Ada'', startTime = Some 0,
      endTime = Some 90000, integrityScore = 100,
      events = [\<lparr>type = ''TAB_SWITCH'', timestamp = 1000, confidence = 1\<rparr>]\<rparr>"

definition twoEventInterview :: InterviewData where
  "twoEventInterview =
     \<lparr>roomId = ''room-1'', candidateName = ''Ada'', startTime = Some 0,
      endTime = Some 90000, integrityScore = 75,
      events = [\<lparr>type = ''FOCUS_LOST'', timestamp = 1000, confidence = 4 / 5\<rparr>,
                \<lparr>type = ''PHONE_DETECTED'', timestamp = 3000, confidence = 3 / 2\<rparr>]\<rparr>"

section \<open>The integrity score\<close>

lemma onDetectionEvent_score:
  "RoomPage.integrityScore (onDetectionEvent page event)
     = max 0 (RoomPage.integrityScore page - deduction (DetectionEvent.type event))"
  by (simp add: onDetectionEvent_def)

lemma deduction_nonneg: "0 \<le> deduction ty"
  by (cases ty) simp_all

lemma score_after_events_range:
  "0 \<le> RoomPage.integrityScore page \<and> RoomPage.integrityScore page \<le> 100
     \<Longrightarrow> 0 \<le> RoomPage.integrityScore (foldl onDetectionEvent page es)
         \<and> RoomPage.integrityScore (foldl onDetectionEvent page es) \<le> 100"
proof (induction es arbitrary: page)
  case Nil
  then show ?case by simp
next
  case (Cons e es)
  have "0 \<le> deduction (DetectionEvent.type e)" by (rule deduction_nonneg)
  with Cons.prems
  have "0 \<le> RoomPage.integrityScore (onDetectionEvent page e)
          \<and> RoomPage.integrityScore (onDetectionEvent page e) \<le> 100"
    by (simp add: onDetectionEvent_score)
  then show ?case using Cons.IH by simp
qed

text \<open>
  C1. Starting from the initial score 100, after any sequence of events the score lies
  in [0,100], and applying one more event never raises it: the sequence of scores is
  non-increasing.
\<close>

theorem score_monotone_bounded:
  "0 \<le> RoomPage.integrityScore (foldl onDetectionEvent initialRoomPage es)
   \<and> RoomPage.integrityScore (foldl onDetectionEvent initialRoomPage es) \<le> 100
   \<and> RoomPage.integrityScore (foldl onDetectionEvent initialRoomPage (es @ [e]))
       \<le> RoomPage.integrityScore (foldl onDetectionEvent initialRoomPage es)"
proof -
  let ?p = "foldl onDetectionEvent initialRoomPage es"
  have r: "0 \<le> RoomPage.integrityScore ?p \<and> RoomPage.integrityScore ?p \<le> 100"
    by (rule score_after_events_range) (simp add: initialRoomPage_def)
  have "0 \<le> deduction (DetectionEvent.type e)" by (rule deduction_nonneg)
  with r have "RoomPage.integrityScore (onDetectionEvent ?p e) \<le> RoomPage.integrityScore ?p"
    by (simp add: onDetectionEvent_score)
  with r show ?thesis by simp
qed

text \<open>Six phone detections in a row: the score reaches 0 after the fifth and stays.\<close>

theorem score_monotone_bounded_witness:
  "RoomPage.integrityScore
     (foldl onDetectionEvent initialRoomPage (replicate 5 (triggerEvent PHONE_DETECTED 1 0)))
     = 0
   \<and> RoomPage.integrityScore
       (foldl onDetectionEvent initialRoomPage
          (replicate 5 (triggerEvent PHONE_DETECTED 1 0) @ [triggerEvent PHONE_DETECTED 1 0]))
       \<le> 0"
proof -
  have five: "replicate 5 (triggerEvent PHONE_DETECTED 1 0)
      = [triggerEvent PHONE_DETECTED 1 0, triggerEvent PHONE_DETECTED 1 0,
         triggerEvent PHONE_DETECTED 1 0, triggerEvent PHONE_DETECTED 1 0,
         triggerEvent PHONE_DETECTED 1 0]"
    by (simp add: numeral_eq_Suc)
  have "RoomPage.integrityScore
     (foldl onDetectionEvent initialRoomPage (replicate 5 (triggerEvent PHONE_DETECTED 1 0)))
     = 0"
    unfolding five by (simp add: onDetectionEvent_def initialRoomPage_def triggerEvent_def)
  then show ?thesis
    using score_monotone_bounded [of "replicate 5 (triggerEvent PHONE_DETECTED 1 0)"
        "triggerEvent PHONE_DETECTED 1 0"]
    by simp
qed

text \<open>
  C2. One event of kind \<open>k\<close> takes the score \<open>s\<close> to \<open>max 0 (s - d k)\<close>, with the fixed
  table of deductions 5, 10, 15, 20, 15, 15.
\<close>

theorem single_event_deduction:
  "RoomPage.integrityScore (onDetectionEvent page event)
     = max 0 (RoomPage.integrityScore page - deduction (DetectionEvent.type event))
   \<and> deduction FOCUS_LOST = 5 \<and> deduction NO_FACE = 10
   \<and> deduction MULTIPLE_FACES = 15 \<and> deduction PHONE_DETECTED = 20
   \<and> deduction NOTES_DETECTED = 15 \<and> deduction BOOK_DETECTED = 15"
  by (simp add: onDetectionEvent_score)

theorem single_event_deduction_witness:
  "RoomPage.integrityScore
     (onDetectionEvent initialRoomPage (triggerEvent PHONE_DETECTED (87 / 100) 0)) = 80
   \<and> RoomPage.integrityScore
       (onDetectionEvent (initialRoomPage\<lparr>RoomPage.integrityScore := 10\<rparr>)
          (triggerEvent MULTIPLE_FACES (9 / 10) 0)) = 0"
  using single_event_deduction [of initialRoomPage "triggerEvent PHONE_DETECTED (87 / 100) 0"]
    single_event_deduction [of "initialRoomPage\<lparr>RoomPage.integrityScore := 10\<rparr>"
      "triggerEvent MULTIPLE_FACES (9 / 10) 0"]
  by (simp add: initialRoomPage_def triggerEvent_def)

section \<open>The severity bands of the report\<close>

text \<open>
  C3. The assessment printed in the report is a function of the score alone. Its text
  begins with the band's name, followed by a description; it begins with Excellent
  exactly from 90 up, with Good exactly from 75 to 89, with Average from 60 to 74,
  with Poor from 40 to 59, and with Critical below 40. Every score is in exactly one
  band.
\<close>

theorem interpretation_bands:
  "(prefix ''Excellent'' (interpretationOf s) \<longleftrightarrow> 90 \<le> s)
   \<and> (prefix ''Good'' (interpretationOf s) \<longleftrightarrow> 75 \<le> s \<and> s < 90)
   \<and> (prefix ''Average'' (interpretationOf s) \<longleftrightarrow> 60 \<le> s \<and> s < 75)
   \<and> (prefix ''Poor'' (interpretationOf s) \<longleftrightarrow> 40 \<le> s \<and> s < 60)
   \<and> (prefix ''Critical'' (interpretationOf s) \<longleftrightarrow> s < 40)"
  by (simp add: interpretationOf_def)

text \<open>The boundary scores 90, 75, 60 and 40 open their bands; 89, 74, 59 and 39 do not.\<close>

theorem interpretation_bands_witness:
  "prefix ''Excellent'' (interpretationOf 90) \<and> prefix ''Good'' (interpretationOf 89)
   \<and> prefix ''Good'' (interpretationOf 75) \<and> prefix ''Average'' (interpretationOf 74)
   \<and> prefix ''Average'' (interpretationOf 60) \<and> prefix ''Poor'' (interpretationOf 59)
   \<and> prefix ''Poor'' (interpretationOf 40) \<and> prefix ''Critical'' (interpretationOf 39)
   \<and> prefix ''Excellent'' (interpretationOf 100) \<and> prefix ''Critical'' (interpretationOf 0)"
  using interpretation_bands [of 90] interpretation_bands [of 89] interpretation_bands [of 75]
    interpretation_bands [of 74] interpretation_bands [of 60] interpretation_bands [of 59]
    interpretation_bands [of 40] interpretation_bands [of 39] interpretation_bands [of 100]
    interpretation_bands [of 0]
  by simp

section \<open>The face tracker\<close>

lemma readySystem_simps:
  "objectDetector (readySystem t)" "faceDetector (readySystem t)" "isInitialized (readySystem t)"
  "\<not> isLookingAway (readySystem t)" "\<not> hasNoFace (readySystem t)"
  by (simp_all add: readySystem_def initialize_def newDetectionSystem_def)


lemma offCenter_not_centered:
  "offCenter face video \<Longrightarrow> isFaceLookingAtCenter face video = Some False"
  by (auto simp: offCenter_def isFaceLookingAtCenter_def FACE_CENTER_THRESHOLD_def Let_def
      field_simps split: option.splits)

lemma awayFace_offCenter: "offCenter awayFace camera"
  by (simp add: offCenter_def awayFace_def camera_def)

text \<open>One tick with a single off-center face, on a system whose face model is loaded.\<close>

lemma detectFaces_offCenter:
  assumes "faceDetector this" "isInitialized this" "offCenter face video"
  shows "detectFaces this (Inr [face]) video now =
     (if \<not> isLookingAway this
      then (this\<lparr>hasNoFace := False, lastLookingAwayTime := now, isLookingAway := True\<rparr>, [])
      else if now - lastLookingAwayTime this > 5000
      then (this\<lparr>hasNoFace := False, lastLookingAwayTime := now\<rparr>,
            [triggerEvent FOCUS_LOST (8 / 10) now])
      else (this\<lparr>hasNoFace := False\<rparr>, []))"
proof -
  from assms(3) have c: "categories face \<noteq> []" by (simp add: offCenter_def)
  from assms(3) have f: "isFaceLookingAtCenter face video = Some False"
    by (rule offCenter_not_centered)
  show ?thesis
    using assms(1,2) c f
    by (simp add: detectFaces_def detectFaces_try_def Let_def FOCUS_LOST_THRESHOLD_def)
qed

text \<open>One tick with no face.\<close>

lemma detectFaces_noFace:
  assumes "faceDetector this" "isInitialized this"
  shows "detectFaces this (Inr []) video now =
     (if \<not> hasNoFace this
      then (this\<lparr>lastFaceDetectedTime := now, hasNoFace := True\<rparr>, [])
      else if now - lastFaceDetectedTime this > 10000
      then (this\<lparr>lastFaceDetectedTime := now\<rparr>, [triggerEvent NO_FACE (9 / 10) now])
      else (this, []))"
  using assms
  by (simp add: detectFaces_def detectFaces_try_def Let_def NO_FACE_THRESHOLD_def)

text \<open>A tick without exactly one face does not touch the focus timer.\<close>

lemma detectFaces_not_single:
  "length faces \<noteq> 1 \<Longrightarrow>
     isLookingAway (fst (detectFaces this (Inr faces) video now)) = isLookingAway this
     \<and> lastLookingAwayTime (fst (detectFaces this (Inr faces) video now))
         = lastLookingAwayTime this"
  by (simp add: detectFaces_def detectFaces_try_def Let_def)

subsection \<open>Three off-center ticks\<close>

text \<open>
  C4 as stated fails: a system built at instant 0 sees the off-center face at 2000,
  4000 and 6000 ms. The first tick starts the timer at 2000, so the third tick is only
  4000 ms into the deviation, and nothing is emitted at any of the three ticks.
\<close>

theorem three_ticks_counterexample:
  "offCenter awayFace camera
   \<and> detectFacesLoop (readySystem 0)
       [(Inr [awayFace], camera, 2000), (Inr [awayFace], camera, 4000),
        (Inr [awayFace], camera, 6000)]
     = [[], [], []]"
  by (simp add: awayFace_offCenter detectFaces_offCenter readySystem_simps)

text \<open>
  C4, amended. On a system whose face model is loaded and that is not yet looking away,
  ticks two seconds apart that each hold exactly one off-center face emit nothing at
  the first three ticks and exactly one \<open>FOCUS_LOST\<close>, of confidence 0.8, at the fourth:
  6000 ms after the first tick, which started the timer, and the test is a strict
  \<open>> 5000\<close>. Applying that event takes the score from 100 to 95.
\<close>

theorem focus_lost_fourth_tick:
  assumes "faceDetector this" "isInitialized this" "\<not> isLookingAway this"
    and "offCenter f1 v1" "offCenter f2 v2" "offCenter f3 v3" "offCenter f4 v4"
  shows "detectFacesLoop this
           [(Inr [f1], v1, t), (Inr [f2], v2, t + 2000), (Inr [f3], v3, t + 4000),
            (Inr [f4], v4, t + 6000)]
         = [[], [], [], [triggerEvent FOCUS_LOST (8 / 10) (t + 6000)]]
       \<and> RoomPage.integrityScore
           (foldl onDetectionEvent initialRoomPage
              (concat (detectFacesLoop this
                 [(Inr [f1], v1, t), (Inr [f2], v2, t + 2000), (Inr [f3], v3, t + 4000),
                  (Inr [f4], v4, t + 6000)]))) = 95"
proof -
  have l: "detectFacesLoop this
           [(Inr [f1], v1, t), (Inr [f2], v2, t + 2000), (Inr [f3], v3, t + 4000),
            (Inr [f4], v4, t + 6000)]
         = [[], [], [], [triggerEvent FOCUS_LOST (8 / 10) (t + 6000)]]"
    using assms by (simp add: detectFaces_offCenter)
  show ?thesis
    unfolding l
    by (simp add: onDetectionEvent_def initialRoomPage_def triggerEvent_def)
qed

theorem focus_lost_fourth_tick_witness:
  "faceDetector (readySystem 0) \<and> isInitialized (readySystem 0)
   \<and> \<not> isLookingAway (readySystem 0) \<and> offCenter awayFace camera
   \<and> detectFacesLoop (readySystem 0)
       [(Inr [awayFace], camera, 2000), (Inr [awayFace], camera, 4000),
        (Inr [awayFace], camera, 6000), (Inr [awayFace], camera, 8000)]
     = [[], [], [], [triggerEvent FOCUS_LOST (8 / 10) 8000]]
   \<and> RoomPage.integrityScore
       (foldl onDetectionEvent initialRoomPage
          (concat (detectFacesLoop (readySystem 0)
             [(Inr [awayFace], camera, 2000), (Inr [awayFace], camera, 4000),
              (Inr [awayFace], camera, 6000), (Inr [awayFace], camera, 8000)]))) = 95"
proof -
  have "detectFacesLoop (readySystem 0)
       [(Inr [awayFace], camera, 2000), (Inr [awayFace], camera, 2000 + 2000),
        (Inr [awayFace], camera, 2000 + 4000), (Inr [awayFace], camera, 2000 + 6000)]
     = [[], [], [], [triggerEvent FOCUS_LOST (8 / 10) (2000 + 6000)]]
   \<and> RoomPage.integrityScore
       (foldl onDetectionEvent initialRoomPage
          (concat (detectFacesLoop (readySystem 0)
             [(Inr [awayFace], camera, 2000), (Inr [awayFace], camera, 2000 + 2000),
              (Inr [awayFace], camera, 2000 + 4000),
              (Inr [awayFace], camera, 2000 + 6000)]))) = 95"
    by (rule focus_lost_fourth_tick) (simp_all add: readySystem_simps awayFace_offCenter)
  then show ?thesis
    by (simp add: readySystem_simps awayFace_offCenter detectFaces_offCenter
        onDetectionEvent_def initialRoomPage_def triggerEvent_def)
qed

subsection \<open>Absence of a face\<close>

text \<open>
  C5 as stated fails at the boundary: the no-face condition has been active since
  instant 0 and the next tick without a face comes at exactly 10000 ms. The test is
  \<open>now - lastFaceDetectedTime > 10000\<close>, so nothing is emitted.
\<close>

theorem no_face_boundary_counterexample:
  "hasNoFace (fst (detectFaces (readySystem 0) (Inr []) camera 0))
   \<and> 10000 - lastFaceDetectedTime (fst (detectFaces (readySystem 0) (Inr []) camera 0))
       \<ge> 10000
   \<and> snd (detectFaces (fst (detectFaces (readySystem 0) (Inr []) camera 0))
            (Inr []) camera 10000) = []"
  by (simp add: detectFaces_noFace readySystem_simps)

text \<open>
  C5, amended. At a tick with no face where the no-face condition is already active
  and \<open>now - lastFaceDetectedTime\<close> is more than 10000 ms, exactly one \<open>NO_FACE\<close> of
  confidence 0.9 is emitted and \<open>lastFaceDetectedTime\<close> becomes \<open>now\<close>, nothing else
  changing; the next tick with no face then emits \<open>NO_FACE\<close> exactly when it is more
  than 10000 ms later.
\<close>

theorem no_face_rearm:
  assumes "faceDetector this" "isInitialized this" "hasNoFace this"
    and "now - lastFaceDetectedTime this > 10000"
  shows "detectFaces this (Inr []) video now
           = (this\<lparr>lastFaceDetectedTime := now\<rparr>, [triggerEvent NO_FACE (9 / 10) now])
         \<and> snd (detectFaces (fst (detectFaces this (Inr []) video now)) (Inr []) video' later)
           = (if later - now > 10000 then [triggerEvent NO_FACE (9 / 10) later] else [])"
  using assms by (simp add: detectFaces_noFace)

theorem no_face_rearm_witness:
  "hasNoFace (fst (detectFaces (readySystem 0) (Inr []) camera 0))
   \<and> 10001 - lastFaceDetectedTime (fst (detectFaces (readySystem 0) (Inr []) camera 0))
       > 10000
   \<and> snd (detectFaces (fst (detectFaces (readySystem 0) (Inr []) camera 0))
            (Inr []) camera 10001) = [triggerEvent NO_FACE (9 / 10) 10001]
   \<and> lastFaceDetectedTime
         (fst (detectFaces (fst (detectFaces (readySystem 0) (Inr []) camera 0))
            (Inr []) camera 10001)) = 10001
   \<and> snd (detectFaces
            (fst (detectFaces (fst (detectFaces (readySystem 0) (Inr []) camera 0))
               (Inr []) camera 10001))
            (Inr []) camera 20001) = []"
  using no_face_rearm [where this = "fst (detectFaces (readySystem 0) (Inr []) camera 0)"
      and now = 10001 and video = camera and video' = camera and later = 20001]
  by (simp add: detectFaces_noFace readySystem_simps)

subsection \<open>A gap without a single face\<close>

text \<open>
  C6 as stated fails: the face is off center at instant 0, no face is seen at 2000 and
  4000, and the off-center face is back at 6000. Nothing has reset the focus timer, so
  the 6000 ms since instant 0 count and \<open>FOCUS_LOST\<close> is emitted on the spot.
\<close>

theorem gap_counterexample:
  "offCenter awayFace camera
   \<and> detectFacesLoop (readySystem 0)
       [(Inr [awayFace], camera, 0), (Inr [], camera, 2000), (Inr [], camera, 4000),
        (Inr [awayFace], camera, 6000)]
     = [[], [], [], [triggerEvent FOCUS_LOST (8 / 10) 6000]]"
  by (simp add: awayFace_offCenter detectFaces_offCenter detectFaces_noFace readySystem_simps)

text \<open>
  C6, amended. A tick that sees zero or several faces leaves the focus timer
  (\<open>isLookingAway\<close>, \<open>lastLookingAwayTime\<close>) as it was, and a single face coming back
  resets nothing: with \<open>isLookingAway\<close> still set, an off-center face emits
  \<open>FOCUS_LOST\<close> exactly when \<open>now - lastLookingAwayTime > 5000\<close>, so the deviation
  time from before the gap counts toward the threshold.
\<close>

theorem gap_keeps_focus_timer:
  "(length faces \<noteq> 1 \<longrightarrow>
      isLookingAway (fst (detectFaces this (Inr faces) video now)) = isLookingAway this
      \<and> lastLookingAwayTime (fst (detectFaces this (Inr faces) video now))
          = lastLookingAwayTime this)
   \<and> (faceDetector this \<and> isInitialized this \<and> isLookingAway this \<and> offCenter face video
        \<longrightarrow> snd (detectFaces this (Inr [face]) video now)
            = (if now - lastLookingAwayTime this > 5000
               then [triggerEvent FOCUS_LOST (8 / 10) now] else []))"
  by (simp add: detectFaces_not_single detectFaces_offCenter)

theorem gap_keeps_focus_timer_witness:
  "length ([] :: Detection list) \<noteq> 1
   \<and> isLookingAway (fst (detectFaces (readySystem 0) (Inr [awayFace]) camera 0))
   \<and> lastLookingAwayTime
        (fst (detectFaces (fst (detectFaces (readySystem 0) (Inr [awayFace]) camera 0))
           (Inr []) camera 2000)) = 0
   \<and> offCenter awayFace camera
   \<and> snd (detectFaces
        (fst (detectFaces (fst (detectFaces (readySystem 0) (Inr [awayFace]) camera 0))
           (Inr []) camera 2000))
        (Inr [awayFace]) camera 6000) = [triggerEvent FOCUS_LOST (8 / 10) 6000]"
  using gap_keeps_focus_timer [where faces = "[]"
      and this = "fst (detectFaces (readySystem 0) (Inr [awayFace]) camera 0)"
      and video = camera and now = 2000]
    gap_keeps_focus_timer [where this =
        "fst (detectFaces (fst (detectFaces (readySystem 0) (Inr [awayFace]) camera 0))
           (Inr []) camera 2000)"
      and face = awayFace and video = camera and now = 6000]
  by (simp add: awayFace_offCenter detectFaces_offCenter detectFaces_noFace readySystem_simps)

subsection \<open>A perception model that throws\<close>













section \<open>The object tracker\<close>

text \<open>\<open>includesStr\<close> is the contiguous-sublist relation of the library.\<close>

lemma includes_sublist: "includesStr s sub = sublist sub s"
  by (induction s) (auto simp: sublist_Cons_right)

lemma includes_suffix_part: "includesStr s (a @ b) \<Longrightarrow> includesStr s b"
proof -
  assume "includesStr s (a @ b)"
  then obtain ps ss where "s = ps @ (a @ b) @ ss"
    by (auto simp: includes_sublist sublist_def)
  then have "s = (ps @ a) @ b @ ss" by simp
  then show ?thesis unfolding includes_sublist sublist_def by blast
qed

lemma includes_notebook_book: "includesStr s ''notebook'' \<Longrightarrow> includesStr s ''book''"
  using includes_suffix_part [of s "''note''" "''book''"] by simp

lemma includes_cell_phone: "includesStr s ''cell phone'' \<Longrightarrow> includesStr s ''phone''"
  using includes_suffix_part [of s "''cell ''" "''phone''"] by simp

lemma detectObjects_body_length: "length (detectObjects_body p now) \<le> 1"
  by (simp add: detectObjects_body_def Let_def)

lemma concat_length_le:
  "(\<And>x. length (f x) \<le> 1) \<Longrightarrow> length (concat (map f xs)) \<le> length xs"
proof (induction xs)
  case Nil
  then show ?case by simp
next
  case (Cons x xs)
  have "length (f x) \<le> 1" by (rule Cons.prems)
  moreover have "length (concat (map f xs)) \<le> length xs"
    by (rule Cons.IH) (rule Cons.prems)
  ultimately show ?case by simp
qed

text \<open>
  C7. The claim asks for \<open>NOTES_DETECTED\<close> on every label that contains notebook. The
  code tests for book before it tests for notebook, and a label that contains
  notebook contains book: the label yields \<open>PHONE_DETECTED\<close> when it also contains
  phone and \<open>BOOK_DETECTED\<close> otherwise, with the object's confidence, and never
  \<open>NOTES_DETECTED\<close>.
\<close>

theorem notebook_label_branch:
  "includesStr (toLowerCase (class_name p)) ''notebook'' \<Longrightarrow>
     detectObjects_body p now =
       (if includesStr (toLowerCase (class_name p)) ''phone''
        then [triggerEvent PHONE_DETECTED (score p) now]
        else [triggerEvent BOOK_DETECTED (score p) now])"
  by (auto simp: detectObjects_body_def Let_def
      dest: includes_notebook_book includes_cell_phone)

theorem notebook_yields_book:
  "includesStr (toLowerCase ''Notebook'') ''notebook''
   \<and> detectObjects_body \<lparr>class_name = ''Notebook'', score = 87 / 100\<rparr> 0
       = [triggerEvent BOOK_DETECTED (87 / 100) 0]"
  using notebook_label_branch [of "\<lparr>class_name = ''Notebook'', score = 87 / 100\<rparr>" 0]
  by (simp add: toLowerCase_def toLowerChar_def)

lemma detectObjects_ready:
  "objectDetector this \<Longrightarrow> isInitialized this \<Longrightarrow>
     detectObjects this (Inr ps) now
       = concat (map (\<lambda>prediction. detectObjects_body prediction now) ps)"
  by (simp add: detectObjects_def)

text \<open>
  C10. On a system whose object model is loaded, the object events of a tick are those
  of its predictions, one prediction after the other, after the face events of the
  tick. One prediction triggers at most one event, whose kind follows the order of the
  tests: a label with phone gives \<open>PHONE_DETECTED\<close> alone, also when it holds book;
  otherwise one with book gives \<open>BOOK_DETECTED\<close> alone; otherwise one with paper or
  notebook gives \<open>NOTES_DETECTED\<close> alone; any other label gives nothing.
\<close>

theorem object_event_precedence:
  "length (detectObjects_body p now) \<le> 1
   \<and> length (detectObjects this (Inr ps) now) \<le> length ps
   \<and> (includesStr (toLowerCase (class_name p)) ''phone''
        \<longrightarrow> detectObjects_body p now = [triggerEvent PHONE_DETECTED (score p) now])
   \<and> (\<not> includesStr (toLowerCase (class_name p)) ''phone''
        \<and> includesStr (toLowerCase (class_name p)) ''book''
        \<longrightarrow> detectObjects_body p now = [triggerEvent BOOK_DETECTED (score p) now])
   \<and> (\<not> includesStr (toLowerCase (class_name p)) ''phone''
        \<and> \<not> includesStr (toLowerCase (class_name p)) ''book''
        \<and> (includesStr (toLowerCase (class_name p)) ''paper''
             \<or> includesStr (toLowerCase (class_name p)) ''notebook'')
        \<longrightarrow> detectObjects_body p now = [triggerEvent NOTES_DETECTED (score p) now])
   \<and> (objectDetector this \<and> isInitialized this \<longrightarrow>
        detectObjects this (Inr ps) now
          = concat (map (\<lambda>q. detectObjects this (Inr [q]) now) ps)
        \<and> snd (runDetection this detections (Inr ps) video now)
          = snd (detectFaces this detections video now) @ detectObjects this (Inr ps) now
        \<and> length (detectObjects this (Inr [p]) now) \<le> 1
        \<and> (includesStr (toLowerCase (class_name p)) ''phone''
             \<longrightarrow> detectObjects this (Inr [p]) now
                 = [triggerEvent PHONE_DETECTED (score p) now])
        \<and> (\<not> includesStr (toLowerCase (class_name p)) ''phone''
             \<and> includesStr (toLowerCase (class_name p)) ''book''
             \<longrightarrow> detectObjects this (Inr [p]) now
                 = [triggerEvent BOOK_DETECTED (score p) now])
        \<and> (\<not> includesStr (toLowerCase (class_name p)) ''phone''
             \<and> \<not> includesStr (toLowerCase (class_name p)) ''book''
             \<and> (includesStr (toLowerCase (class_name p)) ''paper''
                  \<or> includesStr (toLowerCase (class_name p)) ''notebook'')
             \<longrightarrow> detectObjects this (Inr [p]) now
                 = [triggerEvent NOTES_DETECTED (score p) now])
        \<and> (\<not> includesStr (toLowerCase (class_name p)) ''phone''
             \<and> \<not> includesStr (toLowerCase (class_name p)) ''book''
             \<and> \<not> includesStr (toLowerCase (class_name p)) ''paper''
             \<and> \<not> includesStr (toLowerCase (class_name p)) ''notebook''
             \<longrightarrow> detectObjects this (Inr [p]) now = []))"
proof -
  have len: "length (concat (map (\<lambda>prediction. detectObjects_body prediction now) ps))
               \<le> length ps"
    by (rule concat_length_le) (rule detectObjects_body_length)
  then have l1: "length (detectObjects this (Inr ps) now) \<le> length ps"
    by (simp add: detectObjects_def)
  have np: "\<not> includesStr s ''phone'' \<Longrightarrow> \<not> includesStr s ''cell phone''" for s
    using includes_cell_phone by blast
  have body:
    "length (detectObjects_body p now) \<le> 1"
    "includesStr (toLowerCase (class_name p)) ''phone''
       \<Longrightarrow> detectObjects_body p now = [triggerEvent PHONE_DETECTED (score p) now]"
    "\<not> includesStr (toLowerCase (class_name p)) ''phone''
       \<Longrightarrow> includesStr (toLowerCase (class_name p)) ''book''
       \<Longrightarrow> detectObjects_body p now = [triggerEvent BOOK_DETECTED (score p) now]"
    "\<not> includesStr (toLowerCase (class_name p)) ''phone''
       \<Longrightarrow> \<not> includesStr (toLowerCase (class_name p)) ''book''
       \<Longrightarrow> includesStr (toLowerCase (class_name p)) ''paper''
             \<or> includesStr (toLowerCase (class_name p)) ''notebook''
       \<Longrightarrow> detectObjects_body p now = [triggerEvent NOTES_DETECTED (score p) now]"
    "\<not> includesStr (toLowerCase (class_name p)) ''phone''
       \<Longrightarrow> \<not> includesStr (toLowerCase (class_name p)) ''book''
       \<Longrightarrow> \<not> includesStr (toLowerCase (class_name p)) ''paper''
       \<Longrightarrow> \<not> includesStr (toLowerCase (class_name p)) ''notebook''
       \<Longrightarrow> detectObjects_body p now = []"
    using np by (simp_all add: detectObjects_body_def Let_def)
  have old: "(includesStr (toLowerCase (class_name p)) ''phone''
        \<longrightarrow> detectObjects_body p now = [triggerEvent PHONE_DETECTED (score p) now])
   \<and> (\<not> includesStr (toLowerCase (class_name p)) ''phone''
        \<and> includesStr (toLowerCase (class_name p)) ''book''
        \<longrightarrow> detectObjects_body p now = [triggerEvent BOOK_DETECTED (score p) now])
   \<and> (\<not> includesStr (toLowerCase (class_name p)) ''phone''
        \<and> \<not> includesStr (toLowerCase (class_name p)) ''book''
        \<and> (includesStr (toLowerCase (class_name p)) ''paper''
             \<or> includesStr (toLowerCase (class_name p)) ''notebook'')
        \<longrightarrow> detectObjects_body p now = [triggerEvent NOTES_DETECTED (score p) now])"
    using body(2-4) by blast
  have ready: "detectObjects this (Inr ps) now
          = concat (map (\<lambda>q. detectObjects this (Inr [q]) now) ps)
        \<and> snd (runDetection this detections (Inr ps) video now)
          = snd (detectFaces this detections video now) @ detectObjects this (Inr ps) now
        \<and> length (detectObjects this (Inr [p]) now) \<le> 1
        \<and> (includesStr (toLowerCase (class_name p)) ''phone''
             \<longrightarrow> detectObjects this (Inr [p]) now
                 = [triggerEvent PHONE_DETECTED (score p) now])
        \<and> (\<not> includesStr (toLowerCase (class_name p)) ''phone''
             \<and> includesStr (toLowerCase (class_name p)) ''book''
             \<longrightarrow> detectObjects this (Inr [p]) now
                 = [triggerEvent BOOK_DETECTED (score p) now])
        \<and> (\<not> includesStr (toLowerCase (class_name p)) ''phone''
             \<and> \<not> includesStr (toLowerCase (class_name p)) ''book''
             \<and> (includesStr (toLowerCase (class_name p)) ''paper''
                  \<or> includesStr (toLowerCase (class_name p)) ''notebook'')
             \<longrightarrow> detectObjects this (Inr [p]) now
                 = [triggerEvent NOTES_DETECTED (score p) now])
        \<and> (\<not> includesStr (toLowerCase (class_name p)) ''phone''
             \<and> \<not> includesStr (toLowerCase (class_name p)) ''book''
             \<and> \<not> includesStr (toLowerCase (class_name p)) ''paper''
             \<and> \<not> includesStr (toLowerCase (class_name p)) ''notebook''
             \<longrightarrow> detectObjects this (Inr [p]) now = [])"
    if g: "objectDetector this \<and> isInitialized this"
  proof -
    from g have one: "detectObjects this (Inr [q]) now = detectObjects_body q now" for q
      by (simp add: detectObjects_ready)
    from g have all: "detectObjects this (Inr ps) now
          = concat (map (\<lambda>q. detectObjects this (Inr [q]) now) ps)"
      by (simp add: detectObjects_ready one)
    from g have tick: "snd (runDetection this detections (Inr ps) video now)
          = snd (detectFaces this detections video now) @ detectObjects this (Inr ps) now"
      by (simp add: runDetection_def case_prod_beta)
    show ?thesis
      unfolding one [of p] using all tick body old unfolding one [of p] by blast
  qed
  show ?thesis
    using l1 body(1) old ready by blast
qed

text \<open>
  A tick without a face whose object model reports a label with both phone and book,
  one with book alone, one with paper alone and a chair.
\<close>

theorem object_event_precedence_witness:
  "objectDetector (readySystem 0) \<and> isInitialized (readySystem 0)
   \<and> includesStr (toLowerCase ''Phone Book'') ''phone''
   \<and> includesStr (toLowerCase ''Phone Book'') ''book''
   \<and> detectObjects (readySystem 0) (Inr [\<lparr>class_name = ''Phone Book'', score = 1 / 2\<rparr>]) 7
       = [triggerEvent PHONE_DETECTED (1 / 2) 7]
   \<and> \<not> includesStr (toLowerCase ''Text Book'') ''phone''
   \<and> includesStr (toLowerCase ''Text Book'') ''book''
   \<and> detectObjects (readySystem 0) (Inr [\<lparr>class_name = ''Text Book'', score = 1 / 4\<rparr>]) 7
       = [triggerEvent BOOK_DETECTED (1 / 4) 7]
   \<and> \<not> includesStr (toLowerCase ''Paper'') ''phone''
   \<and> \<not> includesStr (toLowerCase ''Paper'') ''book''
   \<and> includesStr (toLowerCase ''Paper'') ''paper''
   \<and> detectObjects (readySystem 0) (Inr [\<lparr>class_name = ''Paper'', score = 3 / 4\<rparr>]) 7
       = [triggerEvent NOTES_DETECTED (3 / 4) 7]
   \<and> snd (runDetection (readySystem 0) (Inr []) (Inr deskPredictions) camera 7)
       = [triggerEvent PHONE_DETECTED (1 / 2) 7, triggerEvent BOOK_DETECTED (1 / 4) 7,
          triggerEvent NOTES_DETECTED (3 / 4) 7]"
proof -
  have lower: "toLowerCase ''Phone Book'' = ''phone book''"
    "toLowerCase ''Text Book'' = ''text book''" "toLowerCase ''Paper'' = ''paper''"
    "toLowerCase ''chair'' = ''chair''"
    by (simp_all add: toLowerCase_def toLowerChar_def)
  have r: "objectDetector (readySystem 0) \<and> isInitialized (readySystem 0)"
    by (simp add: readySystem_simps)
  note t = object_event_precedence [where this = "readySystem 0" and now = 7
      and detections = "Inr []" and video = camera and ps = deskPredictions]
  have phone: "detectObjects (readySystem 0)
      (Inr [\<lparr>class_name = ''Phone Book'', score = 1 / 2\<rparr>]) 7
       = [triggerEvent PHONE_DETECTED (1 / 2) 7]"
    using t [where p = "\<lparr>class_name = ''Phone Book'', score = 1 / 2\<rparr>"] r
    by (simp add: lower)
  have book: "detectObjects (readySystem 0)
      (Inr [\<lparr>class_name = ''Text Book'', score = 1 / 4\<rparr>]) 7
       = [triggerEvent BOOK_DETECTED (1 / 4) 7]"
    using t [where p = "\<lparr>class_name = ''Text Book'', score = 1 / 4\<rparr>"] r
    by (simp add: lower)
  have paper: "detectObjects (readySystem 0)
      (Inr [\<lparr>class_name = ''Paper'', score = 3 / 4\<rparr>]) 7
       = [triggerEvent NOTES_DETECTED (3 / 4) 7]"
    using t [where p = "\<lparr>class_name = ''Paper'', score = 3 / 4\<rparr>"] r
    by (simp add: lower)
  have chair: "detectObjects (readySystem 0)
      (Inr [\<lparr>class_name = ''chair'', score = 9 / 10\<rparr>]) 7 = []"
    using t [where p = "\<lparr>class_name = ''chair'', score = 9 / 10\<rparr>"] r
    by (simp add: lower)
  have tick: "snd (runDetection (readySystem 0) (Inr []) (Inr deskPredictions) camera 7)
       = [triggerEvent PHONE_DETECTED (1 / 2) 7, triggerEvent BOOK_DETECTED (1 / 4) 7,
          triggerEvent NOTES_DETECTED (3 / 4) 7]"
    using t [where p = "\<lparr>class_name = ''chair'', score = 9 / 10\<rparr>"] r phone book paper chair
    by (simp add: deskPredictions_def detectFaces_noFace readySystem_simps)
  show ?thesis
    using r phone book paper tick by (simp add: lower)
qed

section \<open>The counts of a saved interview\<close>

lemma counts_partition:
  "\<forall>e\<in>set es. EventData.type e \<in> range typeName
     \<Longrightarrow> length es = countOfType ''FOCUS_LOST'' es + countOfType ''NO_FACE'' es
           + countOfType ''MULTIPLE_FACES'' es + countOfType ''PHONE_DETECTED'' es
           + countOfType ''NOTES_DETECTED'' es + countOfType ''BOOK_DETECTED'' es"
proof (induction es)
  case Nil
  then show ?case by (simp add: countOfType_def)
next
  case (Cons e es)
  from Cons.prems have "EventData.type e \<in> range typeName" by simp
  then obtain k where k: "EventData.type e = typeName k" by blast
  from Cons have ih: "length es = countOfType ''FOCUS_LOST'' es + countOfType ''NO_FACE'' es
           + countOfType ''MULTIPLE_FACES'' es + countOfType ''PHONE_DETECTED'' es
           + countOfType ''NOTES_DETECTED'' es + countOfType ''BOOK_DETECTED'' es"
    by simp
  show ?case
  proof (cases k)
    case FOCUS_LOST
    with k ih show ?thesis by (simp add: countOfType_def)
  next
    case NO_FACE
    with k ih show ?thesis by (simp add: countOfType_def)
  next
    case MULTIPLE_FACES
    with k ih show ?thesis by (simp add: countOfType_def)
  next
    case PHONE_DETECTED
    with k ih show ?thesis by (simp add: countOfType_def)
  next
    case NOTES_DETECTED
    with k ih show ?thesis by (simp add: countOfType_def)
  next
    case BOOK_DETECTED
    with k ih show ?thesis by (simp add: countOfType_def)
  qed
qed

text \<open>Every event of the room page has one of the six kinds.\<close>

lemma toEventData_kind: "EventData.type (toEventData ev) \<in> range typeName"
  by (simp add: toEventData_def)

text \<open>
  C8 as stated fails: the type of a saved event is any string. An interview with one
  event of a type outside the six kinds passes the validation, and is saved with
  \<open>totalEvents = 1\<close> and every count 0.
\<close>

theorem unknown_kind_counterexample:
  "\<not> isl (saveData unknownKindInterview)
   \<and> totalEvents (fst (projr (saveData unknownKindInterview))) = 1
   \<and> sumOfCounts (fst (projr (saveData unknownKindInterview))) = 0"
  by (simp add: saveData_def unknownKindInterview_def sumOfCounts_def countOfType_def Let_def)

text \<open>
  C8, amended. For every interview that \<open>saveData\<close> accepts, the saved \<open>totalEvents\<close>
  is the length of the event list, as is the number of event rows written; it is the
  sum of the six counts when every event's type is one of the six kinds, as it is for
  the events the room page collects.
\<close>

theorem saved_counts:
  assumes "saveData d = Inr (u, rows)"
  shows "totalEvents u = length (InterviewData.events d)
         \<and> length rows = length (InterviewData.events d)
         \<and> (EventData.type ` set (InterviewData.events d) \<subseteq> range typeName
              \<longrightarrow> totalEvents u = sumOfCounts u)"
proof -
  from assms have u:
    "totalEvents u = length (InterviewData.events d)"
    "length rows = length (InterviewData.events d)"
    "focusLostCount u = countOfType ''FOCUS_LOST'' (InterviewData.events d)"
    "noFaceCount u = countOfType ''NO_FACE'' (InterviewData.events d)"
    "multipleFacesCount u = countOfType ''MULTIPLE_FACES'' (InterviewData.events d)"
    "phoneDetectedCount u = countOfType ''PHONE_DETECTED'' (InterviewData.events d)"
    "notesDetectedCount u = countOfType ''NOTES_DETECTED'' (InterviewData.events d)"
    "bookDetectedCount u = countOfType ''BOOK_DETECTED'' (InterviewData.events d)"
    by (auto simp: saveData_def Let_def split: option.splits if_splits)
  have "totalEvents u = sumOfCounts u"
    if "EventData.type ` set (InterviewData.events d) \<subseteq> range typeName"
  proof -
    from that have "\<forall>e\<in>set (InterviewData.events d). EventData.type e \<in> range typeName"
      by blast
    then show ?thesis
      using u counts_partition [of "InterviewData.events d"]
      by (simp add: sumOfCounts_def)
  qed
  with u(1,2) show ?thesis by simp
qed

theorem saved_counts_witness:
  "saveData twoEventInterview
     = Inr (fst (projr (saveData twoEventInterview)), snd (projr (saveData twoEventInterview)))
   \<and> EventData.type ` set (InterviewData.events twoEventInterview) \<subseteq> range typeName
   \<and> totalEvents (fst (projr (saveData twoEventInterview))) = 2
   \<and> sumOfCounts (fst (projr (saveData twoEventInterview))) = 2"
proof -
  have s: "saveData twoEventInterview
     = Inr (fst (projr (saveData twoEventInterview)), snd (projr (saveData twoEventInterview)))"
    by (simp add: saveData_def twoEventInterview_def Let_def)
  have k: "EventData.type ` set (InterviewData.events twoEventInterview) \<subseteq> range typeName"
    using range_eqI [of "''FOCUS_LOST''" typeName FOCUS_LOST]
      range_eqI [of "''PHONE_DETECTED''" typeName PHONE_DETECTED]
    by (simp add: twoEventInterview_def)
  have n: "length (InterviewData.events twoEventInterview) = 2"
    by (simp add: twoEventInterview_def)
  show ?thesis using saved_counts [OF s] s k n by simp
qed

end
